theory Spec2Isabelle
  imports Main
begin

section \<open>Data model\<close>

text \<open>
  The repository is one function, \<open>load_csv(source)\<close> in \<open>src/data_loader.py\<close>. It
  dispatches on the runtime type of \<open>source\<close>, so the argument is a tagged value; it
  returns a fresh DataFrame object, so DataFrames live in a store and are passed by
  reference; it raises exceptions, so the result is a sum.
\<close>

subsection \<open>Tables\<close>

text \<open>
  A cell holds an integer, a decimal number \<open>m \<times> 10\<^sup>e\<close> (written \<open>CDec m e\<close>, with
  no zero at the end of \<open>m\<close>, and zero as \<open>CDec 0 0\<close>), text, or a reference to a
  Python object in the store:
  an object column of a DataFrame holds its values by reference. A table has named
  columns and ordered rows.
\<close>

datatype cell = CNum int | CDec int int | CText string | CObj nat

record table =
  columns :: "string list"
  rows :: "cell list list"

subsection \<open>Exceptions\<close>

text \<open>
  An exception is its class and its arguments: a message (as built by \<open>raise E(msg)\<close>)
  or, for the errors the operating system reports, the error number and the file name.
\<close>

datatype exn_class =
    TypeError | FileNotFoundError | NotADirectoryError | IsADirectoryError
  | PermissionError | UnicodeDecodeError | EmptyDataError | ParserError

datatype exn_args = Msg string | OSArgs nat string

datatype exn = Exn exn_class exn_args

subsection \<open>Runtime values\<close>

text \<open>
  The values \<open>source\<close> can be at run time: a DataFrame (a reference into the store), a
  \<open>str\<close>, a \<open>bytes\<close>, a \<open>pathlib\<close> path object (held as the text \<open>str(p)\<close>, which is
  also what its \<open>__fspath__()\<close> returns), an \<open>os.PathLike\<close> object of any other class
  (an \<open>os.DirEntry\<close>, an instance of a class that defines \<open>__fspath__\<close>), and values of
  other types: an \<open>int\<close>, \<open>None\<close>, a list, an instance of a class that is not
  \<open>os.PathLike\<close> (held as the class name). An \<open>os.PathLike\<close> object of another class is
  held as its class name, what its \<open>__fspath__()\<close> returns (a \<open>str\<close> or a \<open>bytes\<close>) and
  the text \<open>str()\<close> renders it as, which need not be the path.
\<close>

datatype fspath_result = FsStr string | FsBytes "char list"

datatype pyval =
    PDataFrame nat
  | PStr string
  | PBytes "char list"
  | PPath string
  | PPathLike string fspath_result string
  | PInt int
  | PNone
  | PList "pyval list"
  | PObject string

definition apostrophe :: char where
  "apostrophe = CHR 0x27"

text \<open>\<open>type(source)\<close> as an f-string renders it.\<close>

definition class_repr :: "string \<Rightarrow> string" where
  "class_repr name = ''<class '' @ [apostrophe] @ name @ [apostrophe] @ ''>''"

fun type_repr :: "pyval \<Rightarrow> string" where
  "type_repr (PDataFrame a) = class_repr ''pandas.core.frame.DataFrame''"
| "type_repr (PStr s) = class_repr ''str''"
| "type_repr (PBytes b) = class_repr ''bytes''"
| "type_repr (PPath p) = class_repr ''pathlib.PosixPath''"
| "type_repr (PPathLike cls r shown) = class_repr cls"
| "type_repr (PInt i) = class_repr ''int''"
| "type_repr PNone = class_repr ''NoneType''"
| "type_repr (PList vs) = class_repr ''list''"
| "type_repr (PObject cls) = class_repr cls"

text \<open>The two \<open>isinstance\<close> tests of lines 9 and 13.\<close>

fun isinstance_DataFrame :: "pyval \<Rightarrow> bool" where
  "isinstance_DataFrame (PDataFrame a) = True"
| "isinstance_DataFrame v = False"

fun isinstance_str_bytes_PathLike :: "pyval \<Rightarrow> bool" where
  "isinstance_str_bytes_PathLike (PStr s) = True"
| "isinstance_str_bytes_PathLike (PBytes b) = True"
| "isinstance_str_bytes_PathLike (PPath p) = True"
| "isinstance_str_bytes_PathLike (PPathLike cls r shown) = True"
| "isinstance_str_bytes_PathLike v = False"

subsection \<open>The store and the filesystem log\<close>

text \<open>
  A DataFrame object (a frame) refers to a block of data; two frames may refer to the
  same block (a view, a shallow copy). \<open>frames\<close> maps each frame, by index, to its
  block; \<open>blocks\<close> holds the data. \<open>objects\<close> holds the mutable Python objects that
  cells of object columns refer to, here lists of integers. \<open>fs_log\<close> records every
  access to the filesystem in order.
\<close>

datatype fs_event = StatPath string | ReadFile string

record state =
  frames :: "nat list"
  blocks :: "table list"
  objects :: "int list list"
  fs_log :: "fs_event list"

definition df_value :: "state \<Rightarrow> nat \<Rightarrow> table" where
  "df_value st a = blocks st ! (frames st ! a)"

text \<open>
  Assigning to a DataFrame in place (a cell, a row, a column) writes to the block it
  refers to.
\<close>

definition df_assign :: "state \<Rightarrow> nat \<Rightarrow> table \<Rightarrow> state" where
  "df_assign st a t = st\<lparr>blocks := (blocks st)[frames st ! a := t]\<rparr>"

text \<open>
  Mutating a Python object in place (appending to a list held in a cell) writes to
  the object; every cell that refers to it sees the change.
\<close>

definition obj_assign :: "state \<Rightarrow> nat \<Rightarrow> int list \<Rightarrow> state" where
  "obj_assign st ob v = st\<lparr>objects := (objects st)[ob := v]\<rparr>"

text \<open>A new DataFrame object: a new block and a new frame referring to it.\<close>

definition df_alloc :: "state \<Rightarrow> table \<Rightarrow> nat \<times> state" where
  "df_alloc st t =
     (length (frames st),
      st\<lparr>frames := frames st @ [length (blocks st)], blocks := blocks st @ [t]\<rparr>)"

text \<open>
  \<open>source.copy()\<close>: the default is \<open>deep=True\<close>, a new object with a copy of the data
  of the table. The copy is not recursive: the cells of an object column are copied
  as references, so the Python objects they refer to are shared by the source and the
  copy, and no object is made. A frame that exists refers to a block that exists; a
  reference to no object cannot be written in Python.
\<close>

definition DataFrame_copy :: "state \<Rightarrow> nat \<Rightarrow> (exn + nat) \<times> state" where
  "DataFrame_copy st a = (let (a', st') = df_alloc st (df_value st a) in (Inr a', st'))"

definition log_event :: "fs_event \<Rightarrow> state \<Rightarrow> state" where
  "log_event ev st = st\<lparr>fs_log := fs_log st @ [ev]\<rparr>"

subsection \<open>The platform\<close>

text \<open>
  What \<open>load_csv\<close> calls outside the repository: \<open>pathlib.Path(s)\<close>, whose text
  \<open>str(Path(s))\<close> is \<open>path_text s\<close>; \<open>Path.exists()\<close>, which answers or raises; and
  \<open>pandas.read_csv\<close>, which returns a table or raises, given the text of its argument
  (it takes a path-like object by its \<open>__fspath__()\<close>). They are parameters of the
  model.
\<close>

record platform =
  path_text :: "string \<Rightarrow> string"
  fs_exists :: "string \<Rightarrow> exn + bool"
  read_csv :: "string \<Rightarrow> exn + table"

section \<open>load_csv\<close>

definition source_type_msg :: string where
  "source_type_msg = ''source must be a file path or a pandas dataframe: ''"

text \<open>
  \<open>pathlib.Path\<close> takes a \<open>str\<close> or an \<open>os.PathLike\<close> object whose \<open>__fspath__()\<close>
  returns a \<open>str\<close>. On a \<open>bytes\<close>, and on an object whose \<open>__fspath__()\<close> returns a
  \<open>bytes\<close>, it raises \<open>TypeError\<close> with this message.
\<close>

definition Path_bytes_msg :: string where
  "Path_bytes_msg =
     ''argument should be a str object or an os.PathLike object returning str, not ''
       @ class_repr ''bytes''"

text \<open>
  Lines 17 to 21, for a source whose path object has the text \<open>p\<close>, which the
  f-string of line 18 renders as \<open>shown\<close> and which \<open>read_csv\<close> takes as the text
  \<open>arg\<close>.
\<close>

definition load_path ::
  "platform \<Rightarrow> state \<Rightarrow> string \<Rightarrow> string \<Rightarrow> string \<Rightarrow> (exn + nat) \<times> state" where
  "load_path pf st p shown arg =
     (let st1 = log_event (StatPath p) st in
      case fs_exists pf p of
        Inl e \<Rightarrow> (Inl e, st1)
      | Inr found \<Rightarrow>
          if \<not> found
          then (Inl (Exn FileNotFoundError (Msg (''File '' @ shown @ '' not found.''))), st1)
          else
            (let st2 = log_event (ReadFile arg) st1 in
             case read_csv pf arg of
               Inl e \<Rightarrow> (Inl e, st2)
             | Inr t \<Rightarrow> (let (a, st3) = df_alloc st2 t in (Inr a, st3))))"

text \<open>
  The function, lines 7 to 21 of \<open>src/data_loader.py\<close>:
  \<^verbatim>\<open>
  def load_csv(source: str | PathLike | DataFrame) -> DataFrame:
      if isinstance(source, DataFrame):
          return source.copy()
      if not isinstance(source, (str, bytes, PathLike)):
          raise TypeError(f"source must be a file path or a pandas dataframe: {type(source)}")
      if not Path(source).exists():
          raise FileNotFoundError(f"File {source} not found.")
      return read_csv(source)
  \<close>
  The model has one equation per runtime type of \<open>source\<close>, each the path that type
  takes through the tests in the source's order. A DataFrame is copied and returned
  on line 10. A \<open>str\<close>, a path object and any other \<open>os.PathLike\<close> object whose
  \<open>__fspath__()\<close> returns a \<open>str\<close> pass line 13 and go through lines 17 to 21: the
  existence check is made on the text of \<open>Path(source)\<close>, the message of line 18
  holds \<open>str(source)\<close>, and \<open>read_csv\<close> takes the source itself. A \<open>bytes\<close>, and an
  \<open>os.PathLike\<close> object whose \<open>__fspath__()\<close> returns a \<open>bytes\<close>, pass line 13 and stop
  on line 17, where \<open>Path(source)\<close> raises before \<open>exists()\<close> is called. Every other
  value fails the test of line 13 and raises on line 14.
\<close>

fun load_csv :: "platform \<Rightarrow> state \<Rightarrow> pyval \<Rightarrow> (exn + nat) \<times> state" where
  "load_csv pf st (PDataFrame a) = DataFrame_copy st a"
| "load_csv pf st (PStr s) = load_path pf st (path_text pf s) s s"
| "load_csv pf st (PPath p) = load_path pf st p p p"
| "load_csv pf st (PPathLike cls (FsStr q) shown) = load_path pf st (path_text pf q) shown q"
| "load_csv pf st (PPathLike cls (FsBytes b) shown) =
     (Inl (Exn TypeError (Msg Path_bytes_msg)), st)"
| "load_csv pf st (PBytes b) = (Inl (Exn TypeError (Msg Path_bytes_msg)), st)"
| "load_csv pf st v = (Inl (Exn TypeError (Msg (source_type_msg @ type_repr v))), st)"

text \<open>What the caller observes of a call: the exception, or the table returned.\<close>

definition outcome :: "(exn + nat) \<times> state \<Rightarrow> exn + table" where
  "outcome r = (case fst r of Inl e \<Rightarrow> Inl e | Inr a \<Rightarrow> Inr (df_value (snd r) a))"

section \<open>A POSIX platform\<close>

subsection \<open>The text of a path object\<close>

text \<open>
  \<open>str(pathlib.PurePosixPath(s))\<close>, as \<open>pathlib\<close> of the standard library computes
  it: the text is cut at \<open>/\<close>, empty and \<open>.\<close> components are dropped (so a trailing
  \<open>/\<close> is lost), a leading \<open>/\<close> is kept (exactly two are kept as two), and the
  empty path is \<open>.\<close>.
\<close>

fun split_on :: "char \<Rightarrow> string \<Rightarrow> string list" where
  "split_on d [] = [[]]"
| "split_on d (c # cs) =
     (if c = d then [] # split_on d cs
      else (case split_on d cs of p # ps \<Rightarrow> (c # p) # ps | [] \<Rightarrow> [[c]]))"

fun join_with :: "char \<Rightarrow> string list \<Rightarrow> string" where
  "join_with d [] = []"
| "join_with d [f] = f"
| "join_with d (f # g # fs) = f @ d # join_with d (g # fs)"

fun posix_root :: "string \<Rightarrow> string" where
  "posix_root (a # b # c # cs) =
     (if a = CHR ''/'' \<and> b = CHR ''/'' \<and> c \<noteq> CHR ''/'' then ''//''
      else if a = CHR ''/'' then ''/'' else [])"
| "posix_root [a, b] =
     (if a = CHR ''/'' \<and> b = CHR ''/'' then ''//'' else if a = CHR ''/'' then ''/'' else [])"
| "posix_root [a] = (if a = CHR ''/'' then ''/'' else [])"
| "posix_root [] = []"

definition real_component :: "string \<Rightarrow> bool" where
  "real_component c = (c \<noteq> [] \<and> c \<noteq> ''.'')"

definition posix_path_text :: "string \<Rightarrow> string" where
  "posix_path_text s =
     (let parts = filter real_component (split_on (CHR ''/'') s);
          text = posix_root s @ join_with (CHR ''/'') parts
      in if text = [] then ''.'' else text)"

subsection \<open>The filesystem\<close>

text \<open>
  What the operating system answers for a path text: nothing is there, a component
  of the path is not a directory, a directory, a file that may not be read, or a
  readable file with its contents (its bytes).
\<close>

datatype fs_lookup = NoEntry | NotDir | IsDir | Unreadable | IsFile string

fun lookup_exists :: "fs_lookup \<Rightarrow> bool" where
  "lookup_exists NoEntry = False"
| "lookup_exists NotDir = False"
| "lookup_exists IsDir = True"
| "lookup_exists Unreadable = True"
| "lookup_exists (IsFile text) = True"

fun not_directory :: "fs_lookup \<Rightarrow> bool" where
  "not_directory Unreadable = True"
| "not_directory (IsFile text) = True"
| "not_directory l = False"

text \<open>
  How the operating system resolves a path text, given what is at each path in the
  normal form above. The empty text names nothing. Repeated separators and \<open>.\<close>
  components change nothing, but a text whose last component is empty or \<open>.\<close> (one
  that ends in \<open>/\<close> or \<open>/.\<close>) asks for a directory: on a file it fails, a file not
  being a directory.
\<close>

definition demands_directory :: "string \<Rightarrow> bool" where
  "demands_directory s = (\<not> real_component (last (split_on (CHR ''/'') s)))"

definition posix_lookup :: "(string \<Rightarrow> fs_lookup) \<Rightarrow> string \<Rightarrow> fs_lookup" where
  "posix_lookup entries s =
     (if s = [] then NoEntry
      else if demands_directory s \<and> not_directory (entries (posix_path_text s)) then NotDir
      else entries (posix_path_text s))"

subsection \<open>Reading CSV text\<close>

text \<open>
  Modelled from the spec: the CSV reader (\<open>pandas.read_csv\<close>) is not under \<open>src/\<close>.
  The definitions of this subsection follow the spec's words for it: comma-delimited,
  first row treated as header supplying column names, standard quoting and escaping
  rules for delimiters and newlines embedded in quoted fields; one column per header
  field, one row per data line; columns that are entirely numeric convert to numeric
  type, otherwise text.
\<close>

definition comma :: char where
  "comma = CHR '',''"

definition dquote :: char where
  "dquote = CHR 0x22"

definition newline :: char where
  "newline = CHR 0x0A"

definition creturn :: char where
  "creturn = CHR 0x0D"

text \<open>
  The records scanned so far, first record and first field in front: a character
  goes in front of the first field, a comma opens a field, a line break opens a
  record.
\<close>

definition add_char :: "char \<Rightarrow> string list list \<Rightarrow> string list list" where
  "add_char c recs =
     (case recs of
        (f # fs) # rs \<Rightarrow> ((c # f) # fs) # rs
      | [] # rs \<Rightarrow> [[c]] # rs
      | [] \<Rightarrow> [[[c]]])"

definition new_field :: "string list list \<Rightarrow> string list list" where
  "new_field recs = (case recs of r # rs \<Rightarrow> ([] # r) # rs | [] \<Rightarrow> [[[], []]])"

definition new_record :: "string list list \<Rightarrow> string list list" where
  "new_record recs = [[]] # recs"

text \<open>
  Modelled from the spec: the scanner of \<open>pandas.read_csv\<close>, which is not under
  \<open>src/\<close>. \<open>csv_scan q text\<close> cuts the text into records of fields; \<open>q\<close> says
  whether the scan is inside a quoted section, where a comma and a line break are
  data and a doubled quote is one quote. Outside quotes a line ends with a line feed,
  with a carriage return and a line feed, or with a carriage return. A text that ends
  inside quotes is malformed.
\<close>

fun csv_scan :: "bool \<Rightarrow> string \<Rightarrow> string list list option" where
  "csv_scan False [] = Some [[[]]]"
| "csv_scan True [] = None"
| "csv_scan False (c # cs) =
     (if c = dquote then csv_scan True cs
      else if c = comma then map_option new_field (csv_scan False cs)
      else if c = newline then map_option new_record (csv_scan False cs)
      else if c = creturn
      then (if take 1 cs = [newline] then csv_scan False cs
            else map_option new_record (csv_scan False cs))
      else map_option (add_char c) (csv_scan False cs))"
| "csv_scan True [c] = (if c = dquote then csv_scan False [] else None)"
| "csv_scan True (c # d # ds) =
     (if c = dquote
      then (if d = dquote then map_option (add_char dquote) (csv_scan True ds)
            else csv_scan False (d # ds))
      else map_option (add_char c) (csv_scan True (d # ds)))"

text \<open>
  Modelled from the spec: the type inference of \<open>pandas.read_csv\<close>, which is not under
  \<open>src/\<close>. Columns that are entirely numeric convert to numeric type; otherwise
  text. A field is numeric when it is a decimal literal: an optional sign, digits
  with an optional fraction, an optional exponent. A column of integer literals is a
  column of integers; any other column of decimal literals is a column of decimal
  numbers, each the number its literal denotes (the rounding of a machine float is
  not part of the model).
\<close>

definition is_digit :: "char \<Rightarrow> bool" where
  "is_digit c = (48 \<le> (of_char c :: nat) \<and> (of_char c :: nat) \<le> 57)"

definition digits_value :: "string \<Rightarrow> nat" where
  "digits_value ds = foldl (\<lambda>n c. 10 * n + ((of_char c :: nat) - 48)) 0 ds"

fun split_sign :: "string \<Rightarrow> bool \<times> string" where
  "split_sign [] = (False, [])"
| "split_sign (c # cs) =
     (if c = CHR ''-'' then (True, cs)
      else if c = CHR ''+'' then (False, cs)
      else (False, c # cs))"

definition int_literal :: "string \<Rightarrow> int option" where
  "int_literal s =
     (let (neg, ds) = split_sign s in
      if ds \<noteq> [] \<and> list_all is_digit ds
      then Some (if neg then - int (digits_value ds) else int (digits_value ds))
      else None)"

text \<open>
  The number with the digits \<open>ds\<close> times ten to the \<open>e\<close>, zeros at the end of the
  digits moved into the exponent.
\<close>

definition decimal :: "bool \<Rightarrow> string \<Rightarrow> int \<Rightarrow> int \<times> int" where
  "decimal neg ds e =
     (let z = length (takeWhile (\<lambda>c. c = CHR ''0'') (rev ds));
          m = int (digits_value (take (length ds - z) ds))
      in if m = 0 then (0, 0) else (if neg then - m else m, e + int z))"

definition is_exp_mark :: "char \<Rightarrow> bool" where
  "is_exp_mark c = (c = CHR ''e'' \<or> c = CHR ''E'')"

definition dec_literal :: "string \<Rightarrow> (int \<times> int) option" where
  "dec_literal s =
     (let (neg, body) = split_sign s;
          mant = takeWhile (\<lambda>c. \<not> is_exp_mark c) body;
          etail = dropWhile (\<lambda>c. \<not> is_exp_mark c) body;
          ip = takeWhile (\<lambda>c. c \<noteq> CHR ''.'') mant;
          fp = drop 1 (dropWhile (\<lambda>c. c \<noteq> CHR ''.'') mant);
          ex = (if etail = [] then Some 0 else int_literal (drop 1 etail))
      in if ip @ fp \<noteq> [] \<and> list_all is_digit (ip @ fp)
         then (case ex of
                 None \<Rightarrow> None
               | Some x \<Rightarrow> Some (decimal neg (ip @ fp) (x - int (length fp))))
         else None)"

definition integer_column :: "string list list \<Rightarrow> nat \<Rightarrow> bool" where
  "integer_column rs j = (rs \<noteq> [] \<and> list_all (\<lambda>r. int_literal (r ! j) \<noteq> None) rs)"

definition decimal_column :: "string list list \<Rightarrow> nat \<Rightarrow> bool" where
  "decimal_column rs j = (rs \<noteq> [] \<and> list_all (\<lambda>r. dec_literal (r ! j) \<noteq> None) rs)"

definition infer_cell :: "string list list \<Rightarrow> nat \<Rightarrow> string \<Rightarrow> cell" where
  "infer_cell rs j f =
     (if integer_column rs j
      then (case int_literal f of Some n \<Rightarrow> CNum n | None \<Rightarrow> CText f)
      else if decimal_column rs j
      then (case dec_literal f of Some (m, e) \<Rightarrow> CDec m e | None \<Rightarrow> CText f)
      else CText f)"

definition infer_rows :: "string list list \<Rightarrow> cell list list" where
  "infer_rows rs = map (\<lambda>r. map (\<lambda>j. infer_cell rs j (r ! j)) [0..<length r]) rs"

text \<open>
  Modelled from the spec: the table that \<open>pandas.read_csv\<close>, which is not under
  \<open>src/\<close>, builds. One column per header field, one row per data line, the header
  row never treated as data. Blank lines, and so the end of a text that closes with a
  line break, are not data lines. A text with no header has no columns to parse; a
  data line with a number of fields other than the header's is malformed.
\<close>

definition parse_csv :: "string \<Rightarrow> exn + table" where
  "parse_csv text =
     (case csv_scan False text of
        None \<Rightarrow> Inl (Exn ParserError (Msg ''Error tokenizing data''))
      | Some recs \<Rightarrow>
          (case filter (\<lambda>r. r \<noteq> [[]]) recs of
             [] \<Rightarrow> Inl (Exn EmptyDataError (Msg ''No columns to parse from file''))
           | h # rs \<Rightarrow>
               if list_all (\<lambda>r. length r = length h) rs
               then Inr \<lparr>columns = h, rows = infer_rows rs\<rparr>
               else Inl (Exn ParserError (Msg ''Error tokenizing data''))))"

subsection \<open>The text encoding\<close>

text \<open>
  Modelled from the spec: the decoding of the file by \<open>pandas.read_csv\<close>, which is
  not under \<open>src/\<close>. The spec's words are the platform default text encoding, taken
  here as UTF-8: a file whose bytes are not UTF-8 cannot be decoded. Text is held as
  its UTF-8 bytes throughout.
\<close>

definition continuation :: "char \<Rightarrow> bool" where
  "continuation c = (128 \<le> (of_char c :: nat) \<and> (of_char c :: nat) \<le> 191)"

text \<open>The number of bytes of the sequence that a byte starts; none starts with 0.\<close>

definition utf8_length :: "char \<Rightarrow> nat" where
  "utf8_length a =
     (let x = (of_char a :: nat) in
      if x < 128 then 1
      else if 194 \<le> x \<and> x \<le> 223 then 2
      else if 224 \<le> x \<and> x \<le> 239 then 3
      else if 240 \<le> x \<and> x \<le> 244 then 4
      else 0)"

text \<open>The second byte of a sequence is bounded by the first; the others continue.\<close>

definition second_byte :: "char \<Rightarrow> char \<Rightarrow> bool" where
  "second_byte a b =
     (let x = (of_char a :: nat); y = (of_char b :: nat) in
      (if x = 224 then 160 else if x = 240 then 144 else 128) \<le> y
      \<and> y \<le> (if x = 237 then 159 else if x = 244 then 143 else 191))"

definition utf8_tail :: "char \<Rightarrow> string \<Rightarrow> bool" where
  "utf8_tail a bs = (case bs of [] \<Rightarrow> True | b # cs \<Rightarrow> second_byte a b \<and> list_all continuation cs)"

fun valid_utf8 :: "string \<Rightarrow> bool" where
  "valid_utf8 [] = True"
| "valid_utf8 (a # bs) =
     (let n = utf8_length a in
      0 < n \<and> n - 1 \<le> length bs \<and> utf8_tail a (take (n - 1) bs)
      \<and> valid_utf8 (drop (n - 1) bs))"


subsection \<open>The platform over a filesystem\<close>

text \<open>
  Modelled from the spec: the file access of \<open>pandas.read_csv\<close>, which is not under
  \<open>src/\<close>. The spec's words: treat the source as a filesystem path and parse the
  file's contents as CSV; a failure to read or to parse is raised to the caller.
  The path is opened as it is written, which fails with the operating system's error
  or gives the bytes of the file; these are decoded and handed to the CSV reader
  \<open>parser\<close>. The spec leaves remote URIs and compressed files out, and so does the
  model: a text that the reader would not open as it is written (see \<open>local_path\<close>
  below) is outside it.
\<close>

definition posix_read_csv ::
  "(string \<Rightarrow> exn + table) \<Rightarrow> (string \<Rightarrow> fs_lookup) \<Rightarrow> string \<Rightarrow> exn + table" where
  "posix_read_csv parser fs p =
     (case fs p of
        NoEntry \<Rightarrow> Inl (Exn FileNotFoundError (OSArgs 2 p))
      | NotDir \<Rightarrow> Inl (Exn NotADirectoryError (OSArgs 20 p))
      | IsDir \<Rightarrow> Inl (Exn IsADirectoryError (OSArgs 21 p))
      | Unreadable \<Rightarrow> Inl (Exn PermissionError (OSArgs 13 p))
      | IsFile bytes \<Rightarrow>
          if valid_utf8 bytes then parser bytes
          else Inl (Exn UnicodeDecodeError (Msg ''utf-8'')))"

text \<open>\<open>exists()\<close> is true for an entry of any kind.\<close>

definition posix_platform ::
  "(string \<Rightarrow> exn + table) \<Rightarrow> (string \<Rightarrow> fs_lookup) \<Rightarrow> platform" where
  "posix_platform parser fs =
     \<lparr>path_text = posix_path_text,
      fs_exists = (\<lambda>p. Inr (lookup_exists (fs p))),
      read_csv = posix_read_csv parser fs\<rparr>"

subsection \<open>A filesystem and a store to run on\<close>

text \<open>
  A directory \<open>data\<close> holding the file \<open>file.csv\<close> of the spec's round trip and a file
  \<open>secret.csv\<close> that may not be read. \<open>example_platform\<close> is the POSIX platform over
  it, with the CSV reader above.
\<close>

definition example_csv :: string where
  "example_csv = ''id,name'' @ [newline] @ ''1,alice'' @ [newline] @ ''2,bob'' @ [newline]"

definition example_entries :: "string \<Rightarrow> fs_lookup" where
  "example_entries p =
     (if p = ''data/file.csv'' then IsFile example_csv
      else if p = ''data/secret.csv'' then Unreadable
      else if p = ''data'' \<or> p = ''.'' then IsDir
      else NoEntry)"

definition example_fs :: "string \<Rightarrow> fs_lookup" where
  "example_fs = posix_lookup example_entries"

text \<open>A second filesystem, which holds the same file and no other.\<close>

definition other_entries :: "string \<Rightarrow> fs_lookup" where
  "other_entries p =
     (if p = ''data/file.csv'' then IsFile example_csv
      else if p = ''data'' \<or> p = ''.'' then IsDir
      else NoEntry)"

definition other_fs :: "string \<Rightarrow> fs_lookup" where
  "other_fs = posix_lookup other_entries"

definition example_platform :: platform where
  "example_platform = posix_platform parse_csv example_fs"

definition example_table :: table where
  "example_table =
     \<lparr>columns = [''id'', ''name''],
      rows = [[CNum 1, CText ''alice''], [CNum 2, CText ''bob'']]\<rparr>"

definition empty_state :: state where
  "empty_state = \<lparr>frames = [], blocks = [], objects = [], fs_log = []\<rparr>"

text \<open>A store with one DataFrame object.\<close>

definition example_state :: state where
  "example_state = \<lparr>frames = [0], blocks = [example_table], objects = [], fs_log = []\<rparr>"

text \<open>
  A store with the DataFrame \<open>DataFrame({'x': [[1, 2], [3]]})\<close>: one object column,
  whose two cells refer to two lists.
\<close>

definition list_table :: table where
  "list_table = \<lparr>columns = [''x''], rows = [[CObj 0], [CObj 1]]\<rparr>"

definition list_state :: state where
  "list_state = \<lparr>frames = [0], blocks = [list_table], objects = [[1, 2], [3]], fs_log = []\<rparr>"

text \<open>
  An object of a class that defines \<open>__fspath__\<close> and nothing else, so that \<open>str()\<close>
  renders it as Python renders any object.
\<close>

definition example_pathlike :: pyval where
  "example_pathlike =
     PPathLike ''__main__.FsPath'' (FsStr ''/tmp/does-not-exist-12345.csv'')
       ''<__main__.FsPath object at 0x7f3a5c1d2e90>''"

section \<open>Observing a call\<close>

text \<open>
  For a source that reaches the existence check: the text of \<open>Path(source)\<close>, on
  which \<open>exists()\<close> is called, and the text that \<open>read_csv\<close> takes, which is the
  source itself if it is a \<open>str\<close> and what its \<open>__fspath__()\<close> returns otherwise.
\<close>

fun path_source :: "platform \<Rightarrow> pyval \<Rightarrow> (string \<times> string) option" where
  "path_source pf (PStr s) = Some (path_text pf s, s)"
| "path_source pf (PPath p) = Some (p, p)"
| "path_source pf (PPathLike cls (FsStr q) shown) = Some (path_text pf q, q)"
| "path_source pf v = None"

text \<open>\<open>str(source)\<close>, as the f-string of line 18 renders a source that reaches it.\<close>

fun format_source :: "pyval \<Rightarrow> string option" where
  "format_source (PStr s) = Some s"
| "format_source (PPath p) = Some p"
| "format_source (PPathLike cls r shown) = Some shown"
| "format_source v = None"




text \<open>A text includes another when the other occurs in it.\<close>

fun occurs_in :: "string \<Rightarrow> string \<Rightarrow> bool" where
  "occurs_in p [] = (p = [])"
| "occurs_in p (c # cs) = (take (length p) (c # cs) = p \<or> occurs_in p cs)"

text \<open>
  What a caller sees of a DataFrame: its columns and, cell by cell, the values, a
  cell of an object column showing the object it refers to.
\<close>

datatype shown_cell = SNum int | SDec int int | SText string | SList "int list"

fun cell_shown :: "int list list \<Rightarrow> cell \<Rightarrow> shown_cell" where
  "cell_shown obs (CNum n) = SNum n"
| "cell_shown obs (CDec m e) = SDec m e"
| "cell_shown obs (CText s) = SText s"
| "cell_shown obs (CObj ob) = SList (obs ! ob)"

definition df_shown :: "state \<Rightarrow> nat \<Rightarrow> string list \<times> shown_cell list list" where
  "df_shown st a =
     (columns (df_value st a), map (map (cell_shown (objects st))) (rows (df_value st a)))"

text \<open>A table of scalars: no cell refers to an object.\<close>

fun scalar_cell :: "cell \<Rightarrow> bool" where
  "scalar_cell (CObj ob) = False"
| "scalar_cell c = True"

definition scalar_table :: "table \<Rightarrow> bool" where
  "scalar_table t = list_all (list_all scalar_cell) (rows t)"

section \<open>Well-formed CSV files\<close>




















section \<open>Facts about the model\<close>

subsection \<open>The store\<close>

lemma df_alloc_value: "df_alloc st t = (a, st') \<Longrightarrow> df_value st' a = t"
  by (auto simp: df_alloc_def df_value_def nth_append)

text \<open>What a table of scalars shows does not depend on the objects of the store.\<close>

lemma scalar_cells_shown:
  "list_all scalar_cell r \<Longrightarrow> map (cell_shown obs) r = map (cell_shown obs') r"
proof (induction r)
  case Nil
  then show ?case by simp
next
  case (Cons c r)
  then show ?case by (cases c) simp_all
qed

lemma scalar_rows_shown:
  "list_all (list_all scalar_cell) rs \<Longrightarrow>
   map (map (cell_shown obs)) rs = map (map (cell_shown obs')) rs"
proof (induction rs)
  case Nil
  then show ?case by simp
next
  case (Cons r rs)
  then show ?case using scalar_cells_shown [of r obs obs'] by simp
qed

subsection \<open>The path branch\<close>

lemma load_csv_path:
  assumes "path_source pf src = Some (p, s)"
  shows "\<exists>shown. format_source src = Some shown \<and> load_csv pf st src = load_path pf st p shown s"
proof (cases src)
  case (PPathLike cls r shown)
  with assms show ?thesis by (cases r) auto
qed (use assms in auto)

text \<open>
  What the caller observes of lines 17 to 21 is decided by the platform alone: the
  store the call starts from has no part in it.
\<close>

lemma outcome_load_path:
  "outcome (load_path pf st p shown s) =
     (case fs_exists pf p of
        Inl e \<Rightarrow> Inl e
      | Inr found \<Rightarrow>
          if found then read_csv pf s
          else Inl (Exn FileNotFoundError (Msg (''File '' @ shown @ '' not found.''))))"
proof (cases "fs_exists pf p")
  case (Inl e)
  then show ?thesis by (simp add: load_path_def outcome_def)
next
  case (Inr found)
  show ?thesis
  proof (cases found)
    case False
    with Inr show ?thesis by (simp add: load_path_def outcome_def)
  next
    case True
    show ?thesis
    proof (cases "read_csv pf s")
      case (Inl e)
      with Inr True show ?thesis by (simp add: load_path_def outcome_def)
    next
      case r: (Inr t)
      obtain a st' where
        al: "df_alloc (log_event (ReadFile s) (log_event (StatPath p) st)) t = (a, st')"
        by (cases "df_alloc (log_event (ReadFile s) (log_event (StatPath p) st)) t")
      from df_alloc_value [OF al] Inr True r al show ?thesis
        by (simp add: load_path_def outcome_def)
    qed
  qed
qed

lemma fs_log_load_path:
  "fs_log (snd (load_path pf st p shown s)) =
     fs_log st @ StatPath p # (if fs_exists pf p = Inr True then [ReadFile s] else [])"
  by (auto simp: load_path_def Let_def df_alloc_def log_event_def split: sum.splits)

lemma occurs_in_prefix: "occurs_in p (p @ ys)"
proof (cases "p @ ys")
  case Nil
  then show ?thesis by simp
next
  case (Cons c cs)
  have "take (length p) (p @ ys) = p" by simp
  then show ?thesis unfolding Cons by simp
qed

lemma occurs_in_middle: "occurs_in p (xs @ p @ ys)"
  by (induction xs) (auto simp: occurs_in_prefix)

subsection \<open>Path texts\<close>














subsection \<open>Scanning a written file\<close>















subsection \<open>The example filesystem\<close>

lemma posix_path_text_file: "posix_path_text ''data/file.csv'' = ''data/file.csv''"
  by code_simp


lemma posix_path_text_dir_slash: "posix_path_text ''data/'' = ''data''"
  by code_simp


lemma posix_path_text_missing:
  "posix_path_text ''/tmp/does-not-exist-12345.csv'' = ''/tmp/does-not-exist-12345.csv''"
  by code_simp

lemma example_fs_file: "example_fs ''data/file.csv'' = IsFile example_csv"
  by code_simp


lemma example_fs_secret: "example_fs ''data/secret.csv'' = Unreadable"
  by code_simp

lemma example_fs_dir: "example_fs ''data'' = IsDir"
  by code_simp

lemma example_fs_dir_slash: "example_fs ''data/'' = IsDir"
  by code_simp



lemma example_fs_missing: "example_fs ''/tmp/does-not-exist-12345.csv'' = NoEntry"
  by code_simp

lemma other_fs_file: "other_fs ''data/file.csv'' = IsFile example_csv"
  by code_simp

lemma valid_example_csv: "valid_utf8 example_csv"
  by code_simp

lemma parse_example_csv: "parse_csv example_csv = Inr example_table"
  by code_simp

text \<open>
  Quoting and typing: a comma and a line break inside quotes are data, a doubled
  quote is one quote, a line may end with a carriage return and a line feed, and a
  column of decimal literals is numeric.
\<close>

lemma parse_quoted_field:
  "parse_csv (''a,b'' @ [creturn, newline, dquote] @ ''x,y'' @ [newline, dquote, dquote]
      @ ''z'' @ [dquote] @ '',2.50'' @ [creturn, newline] @ ''w,-1e3'' @ [newline]) =
   Inr \<lparr>columns = [''a'', ''b''],
        rows = [[CText (''x,y'' @ [newline, dquote] @ ''z''), CDec 25 (- 1)],
                [CText ''w'', CDec (- 1) 3]]\<rparr>"
  by code_simp

text \<open>A file that is not UTF-8 is not decoded, whatever the CSV reader.\<close>

lemma read_undecodable_file:
  "fs p = IsFile [CHR 0xFF] \<Longrightarrow>
   posix_read_csv parser fs p = Inl (Exn UnicodeDecodeError (Msg ''utf-8''))"
  by (simp add: posix_read_csv_def utf8_length_def)

lemma path_text_example: "path_text example_platform = posix_path_text"
  by (simp add: example_platform_def posix_platform_def)

lemma read_example_file: "read_csv example_platform ''data/file.csv'' = Inr example_table"
  by (simp add: example_platform_def posix_platform_def posix_read_csv_def example_fs_file
      valid_example_csv parse_example_csv)

lemma exists_example_file: "fs_exists example_platform ''data/file.csv'' = Inr True"
  by (simp add: example_platform_def posix_platform_def example_fs_file)

section \<open>The claims\<close>

text \<open>
  C1. Stated in the specification: for every DataFrame \<open>t\<close>, \<open>load_csv(t)\<close> returns a
  distinct object equal to \<open>t\<close> by value, and no mutation of one affects the other.
  What \<open>source.copy()\<close> gives: the result is a new object, none of the objects there
  were, equal to \<open>t\<close> by value and holding the data of the table in a block of its
  own, and \<open>t\<close> is unchanged; assigning to the result leaves \<open>t\<close> as it was, and
  assigning to \<open>t\<close> leaves the result as it was; for a table of scalars no write to
  any object of the store changes what either shows. The cells of an object column
  are copied as references, so the result refers to the same Python objects as \<open>t\<close>.
\<close>

theorem load_copies_table:
  assumes "a < length (frames st)" and "frames st ! a < length (blocks st)"
  shows "\<exists>a' st'. load_csv pf st (PDataFrame a) = (Inr a', st')
     \<and> a' = length (frames st) \<and> a' \<noteq> a
     \<and> frames st' ! a' \<noteq> frames st' ! a
     \<and> df_value st' a' = df_value st a \<and> df_value st' a = df_value st a
     \<and> df_shown st' a' = df_shown st a \<and> df_shown st' a = df_shown st a
     \<and> (\<forall>t. df_value (df_assign st' a' t) a' = t
            \<and> df_value (df_assign st' a' t) a = df_value st a
            \<and> df_shown (df_assign st' a' t) a = df_shown st a)
     \<and> (\<forall>t. df_value (df_assign st' a t) a = t
            \<and> df_value (df_assign st' a t) a' = df_value st a
            \<and> df_shown (df_assign st' a t) a' = df_shown st a)
     \<and> (scalar_table (df_value st a) \<longrightarrow>
          (\<forall>ob v. df_shown (obj_assign st' ob v) a = df_shown st a
                \<and> df_shown (obj_assign st' ob v) a' = df_shown st a))"
proof -
  define st' where "st' = snd (df_alloc st (df_value st a))"
  have call: "load_csv pf st (PDataFrame a) = (Inr (length (frames st)), st')"
    by (simp add: DataFrame_copy_def df_alloc_def st'_def)
  have fr: "frames st' = frames st @ [length (blocks st)]"
    and bl: "blocks st' = blocks st @ [df_value st a]"
    and ob: "objects st' = objects st"
    by (simp_all add: st'_def df_alloc_def)
  have new: "df_value st' (length (frames st)) = df_value st a"
    and old: "df_value st' a = df_value st a"
    using assms by (simp_all add: df_value_def fr bl nth_append)
  have sharing: "frames st' ! length (frames st) \<noteq> frames st' ! a"
    using assms by (simp add: fr nth_append)
  have assign_new: "df_value (df_assign st' (length (frames st)) t) (length (frames st)) = t
      \<and> df_value (df_assign st' (length (frames st)) t) a = df_value st a
      \<and> df_shown (df_assign st' (length (frames st)) t) a = df_shown st a" for t
    using assms by (simp add: df_shown_def df_value_def df_assign_def fr bl ob nth_append)
  have assign_old: "df_value (df_assign st' a t) a = t
      \<and> df_value (df_assign st' a t) (length (frames st)) = df_value st a
      \<and> df_shown (df_assign st' a t) (length (frames st)) = df_shown st a" for t
    using assms by (simp add: df_shown_def df_value_def df_assign_def fr bl ob nth_append)
  have scalars: "df_shown (obj_assign st' ob v) a = df_shown st a
      \<and> df_shown (obj_assign st' ob v) (length (frames st)) = df_shown st a"
    if "scalar_table (df_value st a)" for ob v
  proof -
    have v: "df_value (obj_assign st' ob v) b = df_value st' b" for b
      by (simp add: df_value_def obj_assign_def)
    have "map (map (cell_shown (objects (obj_assign st' ob v)))) (rows (df_value st a)) =
        map (map (cell_shown (objects st))) (rows (df_value st a))"
      using that scalar_rows_shown by (simp add: scalar_table_def)
    then show ?thesis by (simp add: df_shown_def v new old)
  qed
  have shown: "df_shown st' (length (frames st)) = df_shown st a"
      "df_shown st' a = df_shown st a"
    by (simp_all add: df_shown_def new old ob)
  show ?thesis
    using call assms(1) sharing new old shown assign_new assign_old scalars
    by simp
qed

theorem load_copies_table_witness:
  "0 < length (frames example_state)
   \<and> frames example_state ! 0 < length (blocks example_state)
   \<and> scalar_table (df_value example_state 0)
   \<and> (\<exists>a' st'. load_csv example_platform example_state (PDataFrame 0) = (Inr a', st')
     \<and> a' = 1
     \<and> frames st' ! a' \<noteq> frames st' ! 0
     \<and> df_value st' a' = example_table
     \<and> df_value st' 0 = example_table
     \<and> (\<forall>t. df_value (df_assign st' a' t) a' = t
            \<and> df_value (df_assign st' a' t) 0 = example_table)
     \<and> (\<forall>t. df_value (df_assign st' 0 t) 0 = t
            \<and> df_value (df_assign st' 0 t) a' = example_table)
     \<and> (\<forall>ob v. df_shown (obj_assign st' ob v) 0 = df_shown example_state 0
            \<and> df_shown (obj_assign st' ob v) a' = df_shown example_state 0))"
proof -
  have h1: "0 < length (frames example_state)"
    by (simp add: example_state_def)
  have h2: "frames example_state ! 0 < length (blocks example_state)"
    by (simp add: example_state_def)
  have v: "df_value example_state 0 = example_table"
    by (simp add: example_state_def df_value_def)
  have h3: "scalar_table (df_value example_state 0)"
    unfolding v by (simp add: scalar_table_def example_table_def)
  have l: "length (frames example_state) = 1"
    by (simp add: example_state_def)
  from load_copies_table [OF h1 h2, of example_platform] h3
  obtain a' st' where
    r: "load_csv example_platform example_state (PDataFrame 0) = (Inr a', st')"
      "a' = length (frames example_state)"
      "frames st' ! a' \<noteq> frames st' ! 0"
      "df_value st' a' = df_value example_state 0"
      "df_value st' 0 = df_value example_state 0"
      "\<forall>t. df_value (df_assign st' a' t) a' = t
            \<and> df_value (df_assign st' a' t) 0 = df_value example_state 0
            \<and> df_shown (df_assign st' a' t) 0 = df_shown example_state 0"
      "\<forall>t. df_value (df_assign st' 0 t) 0 = t
            \<and> df_value (df_assign st' 0 t) a' = df_value example_state 0
            \<and> df_shown (df_assign st' 0 t) a' = df_shown example_state 0"
      "\<forall>ob v. df_shown (obj_assign st' ob v) 0 = df_shown example_state 0
                \<and> df_shown (obj_assign st' ob v) a' = df_shown example_state 0"
    by auto
  show ?thesis
    using h1 h2 h3 r unfolding v l by auto
qed

text \<open>
  The statement for every DataFrame fails at \<open>DataFrame({'x': [[1, 2], [3]]})\<close>: the
  first cell of the result refers to the list that the first cell of \<open>t\<close> refers to,
  and appending to it through the result changes what \<open>t\<close> shows.
\<close>

theorem load_copies_table_counterexample:
  "fst (load_csv example_platform list_state (PDataFrame 0)) = Inr 1
   \<and> rows (df_value (snd (load_csv example_platform list_state (PDataFrame 0))) 1) ! 0 ! 0
       = CObj 0
   \<and> df_shown list_state 0 = ([''x''], [[SList [1, 2]], [SList [3]]])
   \<and> df_shown (obj_assign (snd (load_csv example_platform list_state (PDataFrame 0)))
        0 [1, 2, 9]) 0 = ([''x''], [[SList [1, 2, 9]], [SList [3]]])"
  by (simp add: DataFrame_copy_def df_alloc_def df_value_def df_shown_def obj_assign_def
      list_state_def list_table_def)

text \<open>
  C2. A source that is neither a DataFrame nor a \<open>str\<close>, \<open>bytes\<close> or path-like
  object is rejected with \<open>TypeError\<close> (the spec's InvalidSourceType) before
  anything else happens, and the message ends with the runtime type of the source.
\<close>

theorem invalid_type_rejected:
  assumes "\<not> isinstance_DataFrame v" and "\<not> isinstance_str_bytes_PathLike v"
  shows "load_csv pf st v = (Inl (Exn TypeError (Msg (source_type_msg @ type_repr v))), st)"
  using assms by (cases v) simp_all

theorem invalid_type_rejected_witness:
  "\<not> isinstance_DataFrame (PInt 5) \<and> \<not> isinstance_str_bytes_PathLike (PInt 5)
   \<and> load_csv example_platform empty_state (PInt 5) =
      (Inl (Exn TypeError
         (Msg (''source must be a file path or a pandas dataframe: <class ''
               @ [apostrophe] @ ''int'' @ [apostrophe] @ ''>''))), empty_state)"
proof -
  have h1: "\<not> isinstance_DataFrame (PInt 5)" by simp
  have h2: "\<not> isinstance_str_bytes_PathLike (PInt 5)" by simp
  show ?thesis
    using h1 h2 invalid_type_rejected [OF h1 h2, of example_platform empty_state]
    by (simp add: source_type_msg_def class_repr_def)
qed

text \<open>
  C3. Stated in the specification: for every string or path-like source whose path
  does not exist, \<open>load_csv\<close> raises \<open>FileNotFoundError\<close> (the spec's
  SourceNotFound) and the message includes the path. The exception is raised for
  every such source, after the existence check and nothing else. Its message holds
  \<open>str(source)\<close>, which is the path when the source is a \<open>str\<close> or a \<open>pathlib\<close> path
  object.
\<close>

theorem missing_path_rejected:
  assumes "path_source pf src = Some (p, s)" and "fs_exists pf p = Inr False"
  shows "\<exists>shown. format_source src = Some shown
    \<and> load_csv pf st src =
        (Inl (Exn FileNotFoundError (Msg (''File '' @ shown @ '' not found.''))),
         log_event (StatPath p) st)
    \<and> (src = PStr s \<or> src = PPath s \<longrightarrow>
         shown = s \<and> occurs_in s (''File '' @ shown @ '' not found.''))"
proof -
  obtain shown where f: "format_source src = Some shown"
    and l: "load_csv pf st src = load_path pf st p shown s"
    using load_csv_path [OF assms(1)] by blast
  have "load_csv pf st src =
      (Inl (Exn FileNotFoundError (Msg (''File '' @ shown @ '' not found.''))),
       log_event (StatPath p) st)"
    using assms(2) by (simp add: l load_path_def)
  moreover have "shown = s \<and> occurs_in s (''File '' @ shown @ '' not found.'')"
    if "src = PStr s \<or> src = PPath s"
    using that f occurs_in_middle [of s "''File ''" "'' not found.''"] by auto
  ultimately show ?thesis using f by blast
qed

theorem missing_path_rejected_witness:
  "path_source example_platform (PStr ''/tmp/does-not-exist-12345.csv'') =
     Some (''/tmp/does-not-exist-12345.csv'', ''/tmp/does-not-exist-12345.csv'')
   \<and> fs_exists example_platform ''/tmp/does-not-exist-12345.csv'' = Inr False
   \<and> load_csv example_platform empty_state (PStr ''/tmp/does-not-exist-12345.csv'') =
      (Inl (Exn FileNotFoundError (Msg ''File /tmp/does-not-exist-12345.csv not found.'')),
       \<lparr>frames = [], blocks = [], objects = [],
        fs_log = [StatPath ''/tmp/does-not-exist-12345.csv'']\<rparr>)
   \<and> occurs_in ''/tmp/does-not-exist-12345.csv''
        ''File /tmp/does-not-exist-12345.csv not found.''"
proof -
  have h1: "path_source example_platform (PStr ''/tmp/does-not-exist-12345.csv'') =
     Some (''/tmp/does-not-exist-12345.csv'', ''/tmp/does-not-exist-12345.csv'')"
    by (simp add: path_text_example posix_path_text_missing)
  have h2: "fs_exists example_platform ''/tmp/does-not-exist-12345.csv'' = Inr False"
    by (simp add: example_platform_def posix_platform_def example_fs_missing)
  show ?thesis
    using h1 h2 missing_path_rejected [OF h1 h2, of empty_state]
    by (simp add: log_event_def empty_state_def)
qed

text \<open>
  The statement about the message fails at an \<open>os.PathLike\<close> object that \<open>str()\<close>
  does not render as its path: it passes line 13, its path does not exist, and the
  message of line 18 holds the rendering of the object, in which the path does not
  occur.
\<close>

theorem missing_path_rejected_counterexample:
  "isinstance_str_bytes_PathLike example_pathlike
   \<and> path_source example_platform example_pathlike =
       Some (''/tmp/does-not-exist-12345.csv'', ''/tmp/does-not-exist-12345.csv'')
   \<and> fs_exists example_platform ''/tmp/does-not-exist-12345.csv'' = Inr False
   \<and> fst (load_csv example_platform empty_state example_pathlike) =
       Inl (Exn FileNotFoundError
         (Msg ''File <__main__.FsPath object at 0x7f3a5c1d2e90> not found.''))
   \<and> \<not> occurs_in ''/tmp/does-not-exist-12345.csv''
         ''File <__main__.FsPath object at 0x7f3a5c1d2e90> not found.''"
proof -
  have n: "\<not> occurs_in ''/tmp/does-not-exist-12345.csv''
      ''File <__main__.FsPath object at 0x7f3a5c1d2e90> not found.''"
    by code_simp
  have e: "fs_exists example_platform ''/tmp/does-not-exist-12345.csv'' = Inr False"
    by (simp add: example_platform_def posix_platform_def example_fs_missing)
  show ?thesis
    using n e
    by (simp add: example_pathlike_def path_text_example posix_path_text_missing
        load_path_def)
qed



text \<open>
  C5. Stated in the specification: a \<open>bytes\<close> source that names an existing CSV
  file is loaded like the \<open>str\<close> of the same path. The code lets \<open>bytes\<close> through the
  type test of line 13 and then fails on line 17, where \<open>Path(source)\<close> raises
  \<open>TypeError\<close>: no existence check is made and nothing is read, while the \<open>str\<close> of
  the same path is loaded.
\<close>

theorem bytes_source_raises:
  "isinstance_str_bytes_PathLike (PBytes ''data/file.csv'')
   \<and> load_csv example_platform empty_state (PBytes ''data/file.csv'') =
       (Inl (Exn TypeError (Msg Path_bytes_msg)), empty_state)
   \<and> outcome (load_csv example_platform empty_state (PStr ''data/file.csv'')) =
       Inr example_table"
  by (simp add: outcome_load_path path_text_example posix_path_text_file
      exists_example_file read_example_file)




text \<open>
  C7. For a DataFrame source \<open>load_csv\<close> does not touch the filesystem: the call is
  the copy and nothing else, its result is the same on every platform, whatever the
  filesystem holds, and the log of filesystem accesses is as it was before the call.
\<close>

theorem table_input_no_filesystem:
  "load_csv pf st (PDataFrame a) = DataFrame_copy st a
   \<and> load_csv pf st (PDataFrame a) = load_csv pf' st (PDataFrame a)
   \<and> fs_log (snd (load_csv pf st (PDataFrame a))) = fs_log st"
  by (simp add: DataFrame_copy_def df_alloc_def)

theorem table_input_no_filesystem_witness:
  "load_csv example_platform example_state (PDataFrame 0) =
     load_csv (posix_platform parse_csv (\<lambda>p. NoEntry)) example_state (PDataFrame 0)
   \<and> fs_log (snd (load_csv example_platform example_state (PDataFrame 0))) = []"
  using table_input_no_filesystem
    [of example_platform example_state 0 "posix_platform parse_csv (\<lambda>p. NoEntry)"]
  by (simp add: example_state_def)

text \<open>
  C8. For a path source that passes the type test and the existence check, an
  exception that \<open>read_csv\<close> raises is the exception the caller gets, as it is:
  \<open>load_csv\<close> neither catches it nor puts another in its place.
\<close>

theorem parser_failure_propagates:
  assumes "path_source pf src = Some (p, s)" and "fs_exists pf p = Inr True"
    and "read_csv pf s = Inl e"
  shows "load_csv pf st src = (Inl e, log_event (ReadFile s) (log_event (StatPath p) st))"
proof -
  obtain shown where "load_csv pf st src = load_path pf st p shown s"
    using load_csv_path [OF assms(1)] by blast
  then show ?thesis using assms(2) assms(3) by (simp add: load_path_def)
qed

theorem parser_failure_propagates_witness:
  "path_source example_platform (PPath ''data/secret.csv'') =
     Some (''data/secret.csv'', ''data/secret.csv'')
   \<and> fs_exists example_platform ''data/secret.csv'' = Inr True
   \<and> read_csv example_platform ''data/secret.csv'' =
       Inl (Exn PermissionError (OSArgs 13 ''data/secret.csv''))
   \<and> load_csv example_platform empty_state (PPath ''data/secret.csv'') =
       (Inl (Exn PermissionError (OSArgs 13 ''data/secret.csv'')),
        \<lparr>frames = [], blocks = [], objects = [],
         fs_log = [StatPath ''data/secret.csv'', ReadFile ''data/secret.csv'']\<rparr>)"
proof -
  have h1: "path_source example_platform (PPath ''data/secret.csv'') =
      Some (''data/secret.csv'', ''data/secret.csv'')"
    by simp
  have h2: "fs_exists example_platform ''data/secret.csv'' = Inr True"
    by (simp add: example_platform_def posix_platform_def example_fs_secret)
  have h3: "read_csv example_platform ''data/secret.csv'' =
      Inl (Exn PermissionError (OSArgs 13 ''data/secret.csv''))"
    by (simp add: example_platform_def posix_platform_def posix_read_csv_def
        example_fs_secret)
  show ?thesis
    using h1 h2 h3 parser_failure_propagates [OF h1 h2 h3, of empty_state]
    by (simp add: log_event_def empty_state_def)
qed

text \<open>
  C9. What a call on a path source returns or raises is decided by the path, by
  whether it exists and by what \<open>read_csv\<close> gives for it: two calls for which these
  are the same give the same table or the same exception, whatever the store each
  starts from, and a second call after the first gives the same as the first.
\<close>

theorem load_deterministic:
  assumes "path_source pf src = Some (p, s)" and "path_source pf' src = Some (p, s)"
    and "fs_exists pf' p = fs_exists pf p" and "read_csv pf' s = read_csv pf s"
  shows "outcome (load_csv pf st src) = outcome (load_csv pf' st' src)
    \<and> outcome (load_csv pf' (snd (load_csv pf st src)) src) = outcome (load_csv pf st src)"
proof -
  obtain shown where f: "format_source src = Some shown"
    using load_csv_path [OF assms(1)] by blast
  have l: "load_csv pf st1 src = load_path pf st1 p shown s" for st1
    using load_csv_path [OF assms(1), of st1] f by auto
  have l': "load_csv pf' st2 src = load_path pf' st2 p shown s" for st2
    using load_csv_path [OF assms(2), of st2] f by auto
  have same: "outcome (load_path pf' st2 p shown s) = outcome (load_path pf st p shown s)"
    for st2
    by (simp only: outcome_load_path assms(3) assms(4))
  show ?thesis
    by (simp add: l l' same)
qed

theorem load_deterministic_witness:
  "path_source example_platform (PStr ''data/file.csv'') =
     Some (''data/file.csv'', ''data/file.csv'')
   \<and> path_source (posix_platform parse_csv other_fs) (PStr ''data/file.csv'') =
     Some (''data/file.csv'', ''data/file.csv'')
   \<and> fs_exists (posix_platform parse_csv other_fs) ''data/file.csv'' =
       fs_exists example_platform ''data/file.csv''
   \<and> read_csv (posix_platform parse_csv other_fs) ''data/file.csv'' =
       read_csv example_platform ''data/file.csv''
   \<and> outcome (load_csv example_platform empty_state (PStr ''data/file.csv'')) =
       outcome (load_csv (posix_platform parse_csv other_fs) example_state
         (PStr ''data/file.csv''))
   \<and> outcome (load_csv (posix_platform parse_csv other_fs)
        (snd (load_csv example_platform empty_state (PStr ''data/file.csv'')))
        (PStr ''data/file.csv'')) = Inr example_table"
proof -
  have h1: "path_source example_platform (PStr ''data/file.csv'') =
      Some (''data/file.csv'', ''data/file.csv'')"
    by (simp add: path_text_example posix_path_text_file)
  have h2: "path_source (posix_platform parse_csv other_fs) (PStr ''data/file.csv'') =
      Some (''data/file.csv'', ''data/file.csv'')"
    by (simp add: posix_platform_def posix_path_text_file)
  have h3: "fs_exists (posix_platform parse_csv other_fs) ''data/file.csv'' =
      fs_exists example_platform ''data/file.csv''"
    by (simp add: exists_example_file posix_platform_def other_fs_file)
  have h4: "read_csv (posix_platform parse_csv other_fs) ''data/file.csv'' =
      read_csv example_platform ''data/file.csv''"
    by (simp add: read_example_file posix_platform_def posix_read_csv_def other_fs_file
        valid_example_csv parse_example_csv)
  have o: "outcome (load_csv example_platform empty_state (PStr ''data/file.csv'')) =
      Inr example_table"
    by (simp add: outcome_load_path path_text_example posix_path_text_file
        exists_example_file read_example_file)
  show ?thesis
    using h1 h2 h3 h4 o load_deterministic [OF h1 h2 h3 h4, of empty_state example_state]
    by simp
qed

text \<open>
  C10. For a path source that names a directory the existence check passes, so the
  \<open>FileNotFoundError\<close> of line 18 is not raised: \<open>read_csv\<close> is called, and what the
  caller gets is what \<open>read_csv\<close> gives, which is \<open>IsADirectoryError\<close> when the text
  handed to \<open>read_csv\<close> names the directory too.
\<close>

theorem directory_passes_existence_check:
  assumes "path_source (posix_platform parser fs) src = Some (p, s)" and "fs p = IsDir"
  shows "fs_exists (posix_platform parser fs) p = Inr True
    \<and> outcome (load_csv (posix_platform parser fs) st src) = posix_read_csv parser fs s
    \<and> fs_log (snd (load_csv (posix_platform parser fs) st src)) =
        fs_log st @ [StatPath p, ReadFile s]
    \<and> (fs s = IsDir \<longrightarrow>
        load_csv (posix_platform parser fs) st src =
          (Inl (Exn IsADirectoryError (OSArgs 21 s)),
           log_event (ReadFile s) (log_event (StatPath p) st)))"
proof -
  obtain shown where
    l: "load_csv (posix_platform parser fs) st src =
      load_path (posix_platform parser fs) st p shown s"
    using load_csv_path [OF assms(1)] by blast
  have ex: "fs_exists (posix_platform parser fs) p = Inr True"
    using assms(2) by (simp add: posix_platform_def)
  have rd: "read_csv (posix_platform parser fs) s = posix_read_csv parser fs s"
    by (simp add: posix_platform_def)
  have "outcome (load_csv (posix_platform parser fs) st src) = posix_read_csv parser fs s"
    using ex rd by (simp add: l outcome_load_path)
  moreover have "fs_log (snd (load_csv (posix_platform parser fs) st src)) =
      fs_log st @ [StatPath p, ReadFile s]"
    using ex by (simp add: l fs_log_load_path)
  moreover have "load_csv (posix_platform parser fs) st src =
      (Inl (Exn IsADirectoryError (OSArgs 21 s)),
       log_event (ReadFile s) (log_event (StatPath p) st))" if "fs s = IsDir"
    using ex rd that by (simp add: l load_path_def posix_read_csv_def)
  ultimately show ?thesis using ex by simp
qed

theorem directory_passes_existence_check_witness:
  "path_source (posix_platform parse_csv example_fs) (PStr ''data/'') = Some (''data'', ''data/'')
   \<and> example_fs ''data'' = IsDir
   \<and> example_fs ''data/'' = IsDir
   \<and> fs_exists (posix_platform parse_csv example_fs) ''data'' = Inr True
   \<and> load_csv (posix_platform parse_csv example_fs) empty_state (PStr ''data/'') =
       (Inl (Exn IsADirectoryError (OSArgs 21 ''data/'')),
        \<lparr>frames = [], blocks = [], objects = [],
         fs_log = [StatPath ''data'', ReadFile ''data/'']\<rparr>)"
proof -
  have h1: "path_source (posix_platform parse_csv example_fs) (PStr ''data/'') =
      Some (''data'', ''data/'')"
    by (simp add: posix_platform_def posix_path_text_dir_slash)
  have h2: "example_fs ''data'' = IsDir"
    by (rule example_fs_dir)
  have h3: "example_fs ''data/'' = IsDir"
    by (rule example_fs_dir_slash)
  show ?thesis
    using h1 h2 h3 directory_passes_existence_check [OF h1 h2, of empty_state]
    by (simp add: log_event_def empty_state_def)
qed

end
